theory Spec2Isabelle
  imports Complex_Main "HOL-Library.AList"
begin

section \<open>Python primitives used by the publishers\<close>

text \<open>
  The two publishers (\<^verbatim>\<open>02_publisher_modulated.py\<close>, suffix \<open>_02\<close>, and
  \<^verbatim>\<open>05_publisher_modulated_users_Poisson_throttled.py\<close>, suffix \<open>_05\<close>) are embedded
  function by function.  Python \<^verbatim>\<open>float\<close> values are modelled as exact reals, Python
  \<^verbatim>\<open>int\<close> values as \<open>int\<close>, a \<^verbatim>\<open>dict\<close> as an association list in insertion order,
  and every exception as a value of \<open>py_error\<close>.  Floats are the reals they denote.
  Where the rounding of a float operation decides an index, a branch or an exception (the
  running total of the sampler, the index into the modulation table, the modulated
  weights and their sum, the size of a user pool), the operation is rounded to binary64;
  the logarithm of the inter-arrival gap, the cosine of the continuous modulator and the
  arithmetic of the virtual clock and of the sleep durations are exact.
\<close>

datatype py_error =
    ValueError string
  | KeyError string
  | ZeroDivisionError
  | IndexError
  | OverflowError

text \<open>\<^verbatim>\<open>int(x)\<close> on a float truncates towards zero.\<close>

definition py_int :: "real \<Rightarrow> int" where
  "py_int x = (if 0 \<le> x then \<lfloor>x\<rfloor> else \<lceil>x\<rceil>)"

text \<open>Rounding to the nearest integer, ties to the even one.\<close>

definition round_half_even :: "real \<Rightarrow> int" where
  "round_half_even x =
     (let f = \<lfloor>x\<rfloor>; d = x - of_int f
      in if d < 1/2 then f else if 1/2 < d then f + 1 else if even f then f else f + 1)"

subsection \<open>Binary64 rounding\<close>

text \<open>
  Where the outcome of a function hangs on the rounding of a float operation, the operation
  is written out: the exact result is rounded to the nearest binary64 value, ties to the
  even significand, with gradual underflow below \<open>2\<^sup>-\<^sup>1\<^sup>0\<^sup>2\<^sup>2\<close> and overflow to an
  infinity from \<open>2\<^sup>1\<^sup>0\<^sup>2\<^sup>4\<close> on.
\<close>

definition pow2 :: "int \<Rightarrow> real" where
  "pow2 k = (if 0 \<le> k then 2 ^ nat k else 1 / 2 ^ nat (- k))"

definition binary64_exponent :: "real \<Rightarrow> int" where
  "binary64_exponent x = max \<lfloor>log 2 \<bar>x\<bar>\<rfloor> (- 1022)"

definition binary64_round :: "real \<Rightarrow> real" where
  "binary64_round x =
     (if x = 0 then 0
      else (let q = pow2 (binary64_exponent x - 52)
            in of_int (round_half_even (x / q)) * q))"

datatype float = Finite real | PosInf | NegInf | NaN

definition to_float :: "real \<Rightarrow> float" where
  "to_float x =
     (let y = binary64_round x
      in if pow2 1024 \<le> y then PosInf else if y \<le> - pow2 1024 then NegInf else Finite y)"

text \<open>\<^verbatim>\<open>a + b\<close>, \<^verbatim>\<open>a / b\<close> (for a finite \<open>b\<close> other than zero) and \<^verbatim>\<open>a < b\<close> on floats.\<close>

fun float_add :: "float \<Rightarrow> float \<Rightarrow> float" where
  "float_add (Finite a) (Finite b) = to_float (a + b)"
| "float_add NaN _ = NaN"
| "float_add _ NaN = NaN"
| "float_add PosInf NegInf = NaN"
| "float_add NegInf PosInf = NaN"
| "float_add PosInf _ = PosInf"
| "float_add _ PosInf = PosInf"
| "float_add NegInf _ = NegInf"
| "float_add _ NegInf = NegInf"

fun float_div :: "float \<Rightarrow> real \<Rightarrow> float" where
  "float_div (Finite a) b = to_float (a / b)"
| "float_div PosInf b = (if 0 < b then PosInf else NegInf)"
| "float_div NegInf b = (if 0 < b then NegInf else PosInf)"
| "float_div NaN b = NaN"

fun float_less :: "float \<Rightarrow> float \<Rightarrow> bool" where
  "float_less (Finite a) (Finite b) = (a < b)"
| "float_less (Finite a) PosInf = True"
| "float_less NegInf (Finite b) = True"
| "float_less NegInf PosInf = True"
| "float_less _ _ = False"

text \<open>
  \<^verbatim>\<open>x % y\<close> on floats, for \<open>y\<close> other than zero: the remainder of \<^verbatim>\<open>fmod\<close> is exact
  and has the sign of \<open>x\<close>; when it is not zero and its sign is not the sign of \<open>y\<close>,
  one float addition of \<open>y\<close> follows.
\<close>

definition float_rem :: "real \<Rightarrow> real \<Rightarrow> real" where
  "float_rem x y =
     (let r = x - y * of_int (py_int (x / y))
      in if r \<noteq> 0 \<and> ((y < 0) \<noteq> (r < 0)) then binary64_round (r + y) else r)"

text \<open>
  \<^verbatim>\<open>round(x, 2)\<close>: the exact value of the float \<open>x\<close> rounded to two decimals, then the
  float nearest to that decimal.
\<close>

definition py_round2 :: "real \<Rightarrow> real" where
  "py_round2 x = binary64_round (of_int (round_half_even (x * 100)) / 100)"

text \<open>\<^verbatim>\<open>xs[i]\<close> on a list: negative indices count from the end, anything else raises.\<close>

definition list_get :: "'a list \<Rightarrow> int \<Rightarrow> py_error + 'a" where
  "list_get xs i =
     (if 0 \<le> i \<and> i < int (length xs) then Inr (xs ! nat i)
      else if i < 0 \<and> - int (length xs) \<le> i then Inr (xs ! nat (int (length xs) + i))
      else Inl IndexError)"

text \<open>\<^verbatim>\<open>d[k]\<close> on a dict.\<close>

definition dict_get :: "(string \<times> 'v) list \<Rightarrow> string \<Rightarrow> py_error + 'v" where
  "dict_get d k = (case map_of d k of None \<Rightarrow> Inl (KeyError k) | Some v \<Rightarrow> Inr v)"

text \<open>\<^verbatim>\<open>str(n)\<close> on an int.\<close>

definition digit_char :: "nat \<Rightarrow> char" where
  "digit_char d = ''0123456789'' ! d"

fun str_nat :: "nat \<Rightarrow> string" where
  "str_nat n =
     (if n < 10 then [digit_char n]
      else str_nat (n div 10) @ [digit_char (n mod 10)])"

declare str_nat.simps [simp del]

definition str_int :: "int \<Rightarrow> string" where
  "str_int i = (if i < 0 then CHR ''-'' # str_nat (nat (- i)) else str_nat (nat i))"

section \<open>The diurnal modulator\<close>

definition HOURLY_MODULATION_FACTORS :: "real list" where
  "HOURLY_MODULATION_FACTORS =
   [0.272, 0.251, 0.230, 0.210, 0.190,
    0.172, 0.155, 0.138, 0.123, 0.108,
    0.095, 0.083, 0.072, 0.062, 0.054,
    0.047, 0.041, 0.036, 0.033, 0.031,
    0.030, 0.031, 0.033, 0.036, 0.041,
    0.047, 0.054, 0.062, 0.072, 0.083,
    0.095, 0.108, 0.123, 0.138, 0.155,
    0.172, 0.190, 0.210, 0.230, 0.251,
    0.273, 0.295, 0.318, 0.341, 0.365,
    0.389, 0.414, 0.439, 0.464, 0.490,
    0.515, 0.540, 0.566, 0.591, 0.616,
    0.641, 0.665, 0.689, 0.712, 0.735,
    0.758, 0.779, 0.800, 0.820, 0.840,
    0.858, 0.875, 0.892, 0.907, 0.922,
    0.935, 0.947, 0.958, 0.968, 0.976,
    0.983, 0.989, 0.994, 0.997, 0.999,
    1.000, 0.999, 0.997, 0.994, 0.989,
    0.983, 0.976, 0.968, 0.958, 0.947,
    0.935, 0.922, 0.907, 0.892, 0.875,
    0.858, 0.840, 0.820, 0.800, 0.779,
    0.758, 0.735, 0.712, 0.689, 0.665,
    0.641, 0.616, 0.591, 0.566, 0.540,
    0.515, 0.490, 0.464, 0.439, 0.414,
    0.389, 0.365, 0.341, 0.318, 0.295]"

text \<open>
  \<^verbatim>\<open>02\<close>: \<^verbatim>\<open>0.03 + 0.97 * (1+math.cos( (hour-16) * (2*math.pi/24) ))/2\<close>.
\<close>

definition user_daily_activity_pattern_02 :: "real \<Rightarrow> real" where
  "user_daily_activity_pattern_02 hour =
     0.03 + 0.97 * (1 + cos ((hour - 16) * (2 * pi / 24))) / 2"

text \<open>
  \<^verbatim>\<open>05\<close>: \<^verbatim>\<open>HOURLY_MODULATION_FACTORS[int( (hour%24)*5 )]\<close>, the remainder and the
  product in binary64.
\<close>

definition table_index :: "real \<Rightarrow> int" where
  "table_index hour = py_int (binary64_round (float_rem hour 24 * 5))"

definition user_daily_activity_pattern_05 :: "real \<Rightarrow> py_error + real" where
  "user_daily_activity_pattern_05 hour = list_get HOURLY_MODULATION_FACTORS (table_index hour)"

section \<open>The sources of nondeterminism\<close>

text \<open>
  Everything the program reads from outside is a stream indexed by the number of reads made
  so far: the uniform draws in \<open>[0, 1)\<close> behind the \<^verbatim>\<open>random\<close> module, the tokens
  returned by Faker and \<^verbatim>\<open>uuid\<close>, the readings of \<^verbatim>\<open>time.time()\<close> (seconds) and
  the readings of \<^verbatim>\<open>datetime.now\<close> in Tehran (hour, minute).
\<close>

record env =
  uniform_draws :: "nat \<Rightarrow> real"
  mock_tokens :: "nat \<Rightarrow> string"
  wall_seconds :: "nat \<Rightarrow> real"
  tehran_now :: "nat \<Rightarrow> nat \<times> nat"

record cursors =
  rnd_pos :: nat
  mock_pos :: nat
  wall_pos :: nat
  now_pos :: nat

definition next_uniform :: "env \<Rightarrow> 'a cursors_scheme \<Rightarrow> real \<times> 'a cursors_scheme" where
  "next_uniform e s = (uniform_draws e (rnd_pos s), s\<lparr>rnd_pos := Suc (rnd_pos s)\<rparr>)"

definition next_token :: "env \<Rightarrow> 'a cursors_scheme \<Rightarrow> string \<times> 'a cursors_scheme" where
  "next_token e s = (mock_tokens e (mock_pos s), s\<lparr>mock_pos := Suc (mock_pos s)\<rparr>)"

text \<open>\<^verbatim>\<open>int(time.time() * 1_000_000)\<close>.\<close>

definition get_current_timestamp_micros :: "env \<Rightarrow> 'a cursors_scheme \<Rightarrow> int \<times> 'a cursors_scheme" where
  "get_current_timestamp_micros e s =
     (py_int (wall_seconds e (wall_pos s) * 1000000), s\<lparr>wall_pos := Suc (wall_pos s)\<rparr>)"

text \<open>
  \<^verbatim>\<open>round(x, 1)\<close> rounds the exact value of the float \<open>x\<close> to one decimal and returns
  the float nearest to that decimal.  In \<^verbatim>\<open>now.hour + round(now.minute/60, 1)\<close> the
  quotient and the sum are float operations.
\<close>

definition py_round1 :: "real \<Rightarrow> real" where
  "py_round1 x = binary64_round (of_int (round_half_even (x * 10)) / 10)"

definition get_current_hour :: "env \<Rightarrow> 'a cursors_scheme \<Rightarrow> real \<times> 'a cursors_scheme" where
  "get_current_hour e s =
     (case tehran_now e (now_pos s) of
        (hh, mm) \<Rightarrow>
          (binary64_round (real hh + py_round1 (binary64_round (real mm / 60))),
           s\<lparr>now_pos := Suc (now_pos s)\<rparr>))"

subsection \<open>The \<^verbatim>\<open>random\<close> module, as functions of the uniform draw\<close>

text \<open>\<^verbatim>\<open>random.expovariate(lambd)\<close> is \<^verbatim>\<open>-log(1.0 - random()) / lambd\<close>.\<close>

definition expovariate :: "real \<Rightarrow> real \<Rightarrow> py_error + real" where
  "expovariate lambd u = (if lambd = 0 then Inl ZeroDivisionError else Inr (- ln (1 - u) / lambd))"

text \<open>\<^verbatim>\<open>random.uniform(a, b)\<close> is \<^verbatim>\<open>a + (b - a) * random()\<close>.\<close>

definition uniform :: "real \<Rightarrow> real \<Rightarrow> real \<Rightarrow> real" where
  "uniform a b u = a + (b - a) * u"

text \<open>\<^verbatim>\<open>random.randint(a, b)\<close>: an integer of \<open>[a, b]\<close>, each with the same share of the draw.\<close>

definition randint :: "int \<Rightarrow> int \<Rightarrow> real \<Rightarrow> int" where
  "randint a b u = a + \<lfloor>u * of_int (b - a + 1)\<rfloor>"

text \<open>\<^verbatim>\<open>random.choice(seq)\<close>: raises IndexError on an empty sequence.\<close>

definition choice :: "'a list \<Rightarrow> real \<Rightarrow> py_error + 'a" where
  "choice xs u = (if xs = [] then Inl IndexError else Inr (xs ! nat \<lfloor>u * real (length xs)\<rfloor>))"

text \<open>
  \<^verbatim>\<open>itertools.accumulate(weights)\<close>: the first weight, then the running total, each
  step one float addition.  The weights are finite floats.
\<close>

fun accumulate_from :: "float \<Rightarrow> real list \<Rightarrow> float list" where
  "accumulate_from running [] = []"
| "accumulate_from running (w # ws) =
     float_add running (Finite w) # accumulate_from (float_add running (Finite w)) ws"

definition accumulate :: "real list \<Rightarrow> float list" where
  "accumulate ws = (case ws of [] \<Rightarrow> [] | w # rest \<Rightarrow> Finite w # accumulate_from (Finite w) rest)"

text \<open>\<^verbatim>\<open>bisect.bisect_right(a, x, lo, hi)\<close>.\<close>

function bisect :: "float list \<Rightarrow> float \<Rightarrow> nat \<Rightarrow> nat \<Rightarrow> nat" where
  "bisect a x lo hi =
     (if lo < hi
      then (if float_less x (a ! ((lo + hi) div 2))
            then bisect a x lo ((lo + hi) div 2)
            else bisect a x ((lo + hi) div 2 + 1) hi)
      else lo)"
  by pat_completeness auto
termination
  by (relation "measure (\<lambda>(a, x, lo, hi). hi - lo)") auto

declare bisect.simps [simp del]

text \<open>
  \<^verbatim>\<open>random.choices(population, weights=weights, k=1)[0]\<close> (Python 3.9 and later):
  the cumulative weights, \<^verbatim>\<open>total = cum_weights[-1] + 0.0\<close>, \<^verbatim>\<open>ValueError\<close> when
  \<^verbatim>\<open>total <= 0.0\<close> (also for minus infinity), \<^verbatim>\<open>ValueError\<close> when the total is not
  finite (plus infinity or NaN), otherwise one draw, the float product
  \<^verbatim>\<open>random() * total\<close> and a bisection with \<^verbatim>\<open>hi = n - 1\<close>.  The draw is read only
  after the checks.
\<close>

definition choices :: "env \<Rightarrow> 'a list \<Rightarrow> real list \<Rightarrow> 's cursors_scheme \<Rightarrow> (py_error + 'a) \<times> 's cursors_scheme" where
  "choices e population weights s =
     (let cum_weights = accumulate weights;
          n = length population
      in if length cum_weights \<noteq> n
         then (Inl (ValueError ''The number of weights does not match the population''), s)
         else if cum_weights = [] then (Inl IndexError, s)
         else (case float_add (last cum_weights) (Finite 0) of
                 Finite total_weight \<Rightarrow>
                   if total_weight \<le> 0
                   then (Inl (ValueError ''Total of weights must be greater than zero''), s)
                   else (case next_uniform e s of
                           (u, s') \<Rightarrow>
                             (Inr (population ! bisect cum_weights (to_float (u * total_weight)) 0 (n - 1)),
                              s'))
               | NegInf \<Rightarrow> (Inl (ValueError ''Total of weights must be greater than zero''), s)
               | PosInf \<Rightarrow> (Inl (ValueError ''Total of weights must be finite''), s)
               | NaN \<Rightarrow> (Inl (ValueError ''Total of weights must be finite''), s)))"

section \<open>Weighted sampling\<close>

text \<open>
  \<^verbatim>\<open>get_weighted_choice\<close> is the same in both files: the emptiness guard, then
  \<^verbatim>\<open>zip(*distribution.items())\<close> and \<^verbatim>\<open>random.choices\<close>.
\<close>

definition get_weighted_choice :: "env \<Rightarrow> (string \<times> real) list \<Rightarrow> 's cursors_scheme \<Rightarrow> (py_error + string) \<times> 's cursors_scheme" where
  "get_weighted_choice e distribution s =
     (if distribution = [] then (Inl (ValueError ''Distribution dictionary cannot be empty''), s)
      else choices e (map fst distribution) (map snd distribution) s)"

section \<open>Configuration, globals and events\<close>

text \<open>
  The configuration is the parsed JSON document.  A field that the code reads with
  \<^verbatim>\<open>.get(key, default)\<close> is an \<open>option\<close>, \<open>None\<close> when the key is absent;
  \<^verbatim>\<open>config.get("event_type", {}).get("distribution", {})\<close> is one option, \<open>None\<close> when
  either key is absent.
\<close>

record country_infos =
  distribution :: "(string \<times> real) list option"
  timezone :: "(string \<times> real) list option"
  distribution_modulated :: "(string \<times> real) list option"

record config =
  gcp_project_id :: "string option"
  pubsub_topic_name :: "string option"
  event_type_distribution :: "(string \<times> real) list option"
  device_type_distribution :: "(string \<times> real) list option"
  config_country_infos :: "country_infos option"
  events_per_second :: "real option"
  randomness_factor :: "real option"
  users_population_fraction :: "real option"
  gke_replicas_factor :: "real option"
  user_interactions_per_day :: "real option"

text \<open>The module globals of \<^verbatim>\<open>05\<close>, with the read positions of the streams.\<close>

record sim = cursors +
  USERS_BY_COUNTRY :: "(string \<times> string list) list"
  GLOBAL_TIMESTAMP_MICROS :: int
  GLOBAL_TIMESTAMP_HOUR :: real
  GLOBAL_RATE_MAXIMUM :: real

datatype json = JString string | JInt int | JFloat real

datatype stamp = Micros int | Iso8601 string

text \<open>
  The event dictionary.  \<open>event_details\<close> is the object handed to \<^verbatim>\<open>json.dumps\<close>, key
  by key in insertion order.
\<close>

record event =
  generation_timestamp :: int
  event_id :: string
  event_timestamp :: stamp
  user_id :: string
  session_id :: string
  event_type :: string
  app_id :: string
  device_type :: string
  os_version :: string
  country_code :: string
  event_details :: "(string \<times> json) list"

text \<open>\<^verbatim>\<open>d.get(key, {})\<close> and \<^verbatim>\<open>d.get(key, default)\<close>.\<close>

definition get_dict :: "(string \<times> 'v) list option \<Rightarrow> (string \<times> 'v) list" where
  "get_dict d = (case d of None \<Rightarrow> [] | Some xs \<Rightarrow> xs)"

definition get_or :: "'v option \<Rightarrow> 'v \<Rightarrow> 'v" where
  "get_or v dflt = (case v of None \<Rightarrow> dflt | Some x \<Rightarrow> x)"

definition get_country_infos :: "config \<Rightarrow> country_infos" where
  "get_country_infos c =
     (case config_country_infos c of
        None \<Rightarrow> \<lparr>distribution = None, timezone = None, distribution_modulated = None\<rparr>
      | Some ci \<Rightarrow> ci)"

text \<open>Sequencing of steps that may raise: the first error ends the computation.\<close>

definition and_then :: "(py_error + 'a) \<times> 's \<Rightarrow> ('a \<Rightarrow> 's \<Rightarrow> (py_error + 'b) \<times> 's) \<Rightarrow> (py_error + 'b) \<times> 's" where
  "and_then m f = (case m of (Inl err, s) \<Rightarrow> (Inl err, s) | (Inr x, s) \<Rightarrow> f x s)"

section \<open>Time-modulated country weights\<close>

text \<open>
  \<^verbatim>\<open>02\<close>: the loop of \<^verbatim>\<open>generate_time_modulated_weights\<close> over
  \<^verbatim>\<open>country_distribution.items()\<close>, filling a fresh dictionary.
\<close>

fun modulate_loop_02 :: "real \<Rightarrow> (string \<times> real) list \<Rightarrow> (string \<times> real) list \<Rightarrow> (string \<times> real) list \<Rightarrow> py_error + (string \<times> real) list" where
  "modulate_loop_02 current_hour tz [] modulated_weights = Inr modulated_weights"
| "modulate_loop_02 current_hour tz ((country, weight) # rest) modulated_weights =
     (case dict_get tz country of
        Inl err \<Rightarrow> Inl err
      | Inr off \<Rightarrow>
          modulate_loop_02 current_hour tz rest
            (AList.update country (weight * user_daily_activity_pattern_02 (current_hour + off))
               modulated_weights))"

definition generate_time_modulated_weights_02 :: "env \<Rightarrow> (string \<times> real) list \<Rightarrow> (string \<times> real) list \<Rightarrow> 's cursors_scheme \<Rightarrow> (py_error + (string \<times> real) list) \<times> 's cursors_scheme" where
  "generate_time_modulated_weights_02 e country_distribution country_timezone s =
     (case get_current_hour e s of
        (current_hour, s') \<Rightarrow>
          (modulate_loop_02 current_hour country_timezone country_distribution [], s'))"

text \<open>
  \<^verbatim>\<open>05\<close>: the loop writes into the dictionary stored under
  \<^verbatim>\<open>"distribution_modulated"\<close> and adds each stored value to the running sum; the
  country hour, the product and the sum are float operations.  What the loop has written
  stays written when a later country raises.
\<close>

fun modulate_loop_05 :: "real \<Rightarrow> (string \<times> real) list \<Rightarrow> (string \<times> real) list \<Rightarrow> (string \<times> real) list \<Rightarrow> float \<Rightarrow> (py_error + float) \<times> (string \<times> real) list" where
  "modulate_loop_05 current_hour tz [] modulated modulated_sum = (Inr modulated_sum, modulated)"
| "modulate_loop_05 current_hour tz ((country, weight) # rest) modulated modulated_sum =
     (case dict_get tz country of
        Inl err \<Rightarrow> (Inl err, modulated)
      | Inr off \<Rightarrow>
          (case user_daily_activity_pattern_05 (binary64_round (current_hour + off)) of
             Inl err \<Rightarrow> (Inl err, modulated)
           | Inr factor \<Rightarrow>
               modulate_loop_05 current_hour tz rest
                 (AList.update country (binary64_round (weight * factor)) modulated)
                 (float_add modulated_sum (Finite (binary64_round (weight * factor))))))"

text \<open>
  The function reads the global clock hour, rounds it to two decimals, and returns the pair
  (mapping, sum).  The third component is \<^verbatim>\<open>country_infos\<close> after the call: the mapping
  is stored back only when the key \<^verbatim>\<open>"distribution_modulated"\<close> exists.
\<close>

definition generate_time_modulated_weights_05 :: "real \<Rightarrow> country_infos \<Rightarrow> (py_error + (string \<times> real) list \<times> float) \<times> country_infos" where
  "generate_time_modulated_weights_05 global_timestamp_hour ci =
     (let current_hour = py_round2 global_timestamp_hour;
          country_distribution = get_dict (distribution ci);
          country_timezone = get_dict (timezone ci);
          country_distribution_modulated = get_dict (distribution_modulated ci)
      in case modulate_loop_05 current_hour country_timezone country_distribution
                country_distribution_modulated (Finite 0) of
           (r, modulated) \<Rightarrow>
             (case r of Inl err \<Rightarrow> Inl err | Inr modulated_sum \<Rightarrow> Inr (modulated, modulated_sum),
              case distribution_modulated ci of
                None \<Rightarrow> ci
              | Some _ \<Rightarrow> ci\<lparr>distribution_modulated := Some modulated\<rparr>))"

section \<open>Event generation\<close>

text \<open>The type-specific payload, the same \<^verbatim>\<open>if/elif\<close> chain in both files.\<close>

definition event_details_obj :: "env \<Rightarrow> string \<Rightarrow> 's cursors_scheme \<Rightarrow> (string \<times> json) list \<times> 's cursors_scheme" where
  "event_details_obj e etype s =
     (if etype = ''search'' then
        (case next_token e s of (q, s1) \<Rightarrow> ([(''search_query'', JString q)], s1))
      else if etype = ''review_submit'' then
        (case next_uniform e s of (u, s1) \<Rightarrow> ([(''rating'', JInt (randint 1 5 u))], s1))
      else if etype = ''in_app_purchase'' then
        (case next_uniform e s of
           (u1, s1) \<Rightarrow>
             (case next_uniform e s1 of
                (u2, s2) \<Rightarrow>
                  ([(''item_id'', JString (''iap_'' @ str_int (randint 100 999 u1))),
                    (''price_usd'', JFloat (py_round2 (uniform 0.99 99.99 u2)))], s2)))
      else ([], s))"

text \<open>\<^verbatim>\<open>random.choice(seq)\<close> with its draw.\<close>

definition choice_step :: "env \<Rightarrow> 'a list \<Rightarrow> 's cursors_scheme \<Rightarrow> (py_error + 'a) \<times> 's cursors_scheme" where
  "choice_step e xs s =
     (if xs = [] then (Inl IndexError, s)
      else (case next_uniform e s of (u, s1) \<Rightarrow> (choice xs u, s1)))"

text \<open>
  \<^verbatim>\<open>f"app_{random.randint(1000, 9999)}"\<close> and
  \<^verbatim>\<open>f"{random.choice(['iOS', 'Android'])} {random.randint(12, 15)}.{random.randint(0, 5)}"\<close>.
\<close>

definition app_id_string :: "env \<Rightarrow> 's cursors_scheme \<Rightarrow> string \<times> 's cursors_scheme" where
  "app_id_string e s =
     (case next_uniform e s of (u, s1) \<Rightarrow> (''app_'' @ str_int (randint 1000 9999 u), s1))"

definition os_version_string :: "env \<Rightarrow> 's cursors_scheme \<Rightarrow> (py_error + string) \<times> 's cursors_scheme" where
  "os_version_string e s =
     and_then (choice_step e [''iOS'', ''Android''] s) (\<lambda>os s1.
       case next_uniform e s1 of
         (u2, s2) \<Rightarrow>
           (case next_uniform e s2 of
              (u3, s3) \<Rightarrow>
                (Inr (os @ '' '' @ str_int (randint 12 15 u2) @ ''.'' @ str_int (randint 0 5 u3)),
                 s3)))"

subsection \<open>\<^verbatim>\<open>02\<close>: one event per call\<close>

definition generate_event_02 :: "env \<Rightarrow> config \<Rightarrow> cursors \<Rightarrow> (py_error + event) \<times> cursors" where
  "generate_event_02 e cfg s0 =
     and_then (get_weighted_choice e (get_dict (event_type_distribution cfg)) s0) (\<lambda>etype s1.
       case event_details_obj e etype s1 of
         (details, s2) \<Rightarrow>
     and_then (generate_time_modulated_weights_02 e
                 (get_dict (distribution (get_country_infos cfg)))
                 (get_dict (timezone (get_country_infos cfg))) s2) (\<lambda>modulated s3.
       case get_current_timestamp_micros e s3 of
         (gen_ts, s4) \<Rightarrow>
       case next_token e s4 of
         (eid, s5) \<Rightarrow>
       case next_token e s5 of
         (iso_ts, s6) \<Rightarrow>
       case next_token e s6 of
         (uid, s7) \<Rightarrow>
       case next_token e s7 of
         (sid, s8) \<Rightarrow>
       case app_id_string e s8 of
         (app, s9) \<Rightarrow>
     and_then (get_weighted_choice e (get_dict (device_type_distribution cfg)) s9) (\<lambda>dev s10.
     and_then (os_version_string e s10) (\<lambda>os s11.
     and_then (get_weighted_choice e modulated s11) (\<lambda>country s12.
       (Inr \<lparr>generation_timestamp = gen_ts, event_id = eid, event_timestamp = Iso8601 iso_ts,
             user_id = uid, session_id = sid, event_type = etype, app_id = app,
             device_type = dev, os_version = os, country_code = country,
             event_details = details\<rparr>, s12))))))"

subsection \<open>\<^verbatim>\<open>05\<close>: thinning, then the event\<close>

text \<open>Everything after the thinning step: reached only when the arrival is accepted.\<close>

definition accepted_event_05 :: "env \<Rightarrow> config \<Rightarrow> (string \<times> real) list \<Rightarrow> sim \<Rightarrow> (py_error + event) \<times> sim" where
  "accepted_event_05 e cfg modulated s0 =
     and_then (get_weighted_choice e modulated s0) (\<lambda>country s1.
     and_then (case dict_get (USERS_BY_COUNTRY s1) country of
                 Inl err \<Rightarrow> (Inl err, s1)
               | Inr users \<Rightarrow> choice_step e users s1) (\<lambda>uid s2.
     and_then (get_weighted_choice e (get_dict (event_type_distribution cfg)) s2) (\<lambda>etype s3.
       case event_details_obj e etype s3 of
         (details, s4) \<Rightarrow>
       case get_current_timestamp_micros e s4 of
         (gen_ts, s5) \<Rightarrow>
       case next_token e s5 of
         (eid, s6) \<Rightarrow>
       case next_token e s6 of
         (sid, s7) \<Rightarrow>
       case app_id_string e s7 of
         (app, s8) \<Rightarrow>
     and_then (get_weighted_choice e (get_dict (device_type_distribution cfg)) s8) (\<lambda>dev s9.
     and_then (os_version_string e s9) (\<lambda>os s10.
       (Inr \<lparr>generation_timestamp = gen_ts, event_id = eid,
             event_timestamp = Micros (GLOBAL_TIMESTAMP_MICROS s10),
             user_id = uid, session_id = sid, event_type = etype, app_id = app,
             device_type = dev, os_version = os, country_code = country,
             event_details = details\<rparr>, s10))))))"

text \<open>
  \<^verbatim>\<open>generate_event\<close> of \<^verbatim>\<open>05\<close>.  The result is the returned value (\<open>None\<close> for a
  rejected arrival) or the exception, with the configuration and the globals as the call
  leaves them.
\<close>

definition generate_event_05 :: "env \<Rightarrow> config \<Rightarrow> sim \<Rightarrow> (py_error + event option) \<times> config \<times> sim" where
  "generate_event_05 e cfg s0 =
     (case next_uniform e s0 of
        (u0, s1) \<Rightarrow>
          (case expovariate (GLOBAL_RATE_MAXIMUM s1) u0 of
             Inl err \<Rightarrow> (Inl err, cfg, s1)
           | Inr dt_seconds \<Rightarrow>
               (let s2 = s1\<lparr>GLOBAL_TIMESTAMP_MICROS :=
                               GLOBAL_TIMESTAMP_MICROS s1 + py_int (dt_seconds * 1000000),
                             GLOBAL_TIMESTAMP_HOUR :=
                               GLOBAL_TIMESTAMP_HOUR s1 + dt_seconds / 3600\<rparr>
                in case generate_time_modulated_weights_05 (GLOBAL_TIMESTAMP_HOUR s2)
                          (get_country_infos cfg) of
                     (r, ci) \<Rightarrow>
                       (let cfg1 = (case config_country_infos cfg of
                                      None \<Rightarrow> cfg
                                    | Some _ \<Rightarrow> cfg\<lparr>config_country_infos := Some ci\<rparr>)
                        in case r of
                             Inl err \<Rightarrow> (Inl err, cfg1, s2)
                           | Inr (modulated, modulated_sum) \<Rightarrow>
                               (case next_uniform e s2 of
                                  (u1, s3) \<Rightarrow>
                                    if float_less (float_div modulated_sum (GLOBAL_RATE_MAXIMUM s3))
                                         (Finite u1)
                                    then (Inr None, cfg1, s3)
                                    else (case accepted_event_05 e cfg1 modulated s3 of
                                            (Inl err, s4) \<Rightarrow> (Inl err, cfg1, s4)
                                          | (Inr ev, s4) \<Rightarrow> (Inr (Some ev), cfg1, s4)))))))"

section \<open>The delivery loop\<close>

text \<open>
  What an iteration of \<^verbatim>\<open>while True\<close> does to the outside is logged: the event handed
  to \<^verbatim>\<open>publisher.publish\<close> and the argument of each \<^verbatim>\<open>time.sleep\<close> call.
\<close>

datatype effect = Publish event | Sleep real

text \<open>
  \<^verbatim>\<open>02\<close>: the rate control after a publish.  \<open>None\<close>: \<^verbatim>\<open>time.sleep\<close> is not called.
\<close>

definition pacing_02 :: "env \<Rightarrow> real \<Rightarrow> real \<Rightarrow> 's cursors_scheme \<Rightarrow> real option \<times> 's cursors_scheme" where
  "pacing_02 e base_rate randomness s =
     (if 0 < base_rate
      then (case next_uniform e s of
              (u, s1) \<Rightarrow>
                (Some (max 0 ((1 / base_rate) * (1 + uniform (- randomness) randomness u))), s1))
      else (None, s))"

text \<open>\<^verbatim>\<open>05\<close>: the same, with the \<^verbatim>\<open>else\<close> branch \<^verbatim>\<open>time.sleep( 0.00225 )\<close>.\<close>

definition pacing_05 :: "env \<Rightarrow> real \<Rightarrow> real \<Rightarrow> 's cursors_scheme \<Rightarrow> real option \<times> 's cursors_scheme" where
  "pacing_05 e base_rate randomness s =
     (if 0 < base_rate
      then (case next_uniform e s of
              (u, s1) \<Rightarrow>
                (Some (max 0 ((1 / base_rate) * (1 + uniform (- randomness) randomness u))), s1))
      else (Some 0.00225, s))"

definition sleep_effects :: "real option \<Rightarrow> effect list" where
  "sleep_effects d = (case d of None \<Rightarrow> [] | Some t \<Rightarrow> [Sleep t])"

text \<open>
  The loop state: the exception that ended the loop (if any), the configuration, the
  globals and the log.  The loop of the source never ends by itself; \<open>n\<close> bounds the number
  of iterations that are followed.
\<close>

record loop_02 =
  stopped_02 :: "py_error option"
  cursors_02 :: cursors
  log_02 :: "effect list"

fun publish_loop_02 :: "nat \<Rightarrow> env \<Rightarrow> config \<Rightarrow> real \<Rightarrow> real \<Rightarrow> loop_02 \<Rightarrow> loop_02" where
  "publish_loop_02 0 e cfg base_rate randomness st = st"
| "publish_loop_02 (Suc n) e cfg base_rate randomness st =
     (case generate_event_02 e cfg (cursors_02 st) of
        (Inl err, s1) \<Rightarrow> st\<lparr>stopped_02 := Some err, cursors_02 := s1\<rparr>
      | (Inr ev, s1) \<Rightarrow>
          (case pacing_02 e base_rate randomness s1 of
             (d, s2) \<Rightarrow>
               publish_loop_02 n e cfg base_rate randomness
                 (st\<lparr>cursors_02 := s2, log_02 := log_02 st @ Publish ev # sleep_effects d\<rparr>)))"

definition publish_messages_batch_02 :: "nat \<Rightarrow> env \<Rightarrow> config \<Rightarrow> cursors \<Rightarrow> loop_02" where
  "publish_messages_batch_02 n e cfg s =
     publish_loop_02 n e cfg (get_or (events_per_second cfg) 0) (get_or (randomness_factor cfg) 0.1)
       \<lparr>stopped_02 = None, cursors_02 = s, log_02 = []\<rparr>"

record loop_05 =
  stopped_05 :: "py_error option"
  config_05 :: config
  globals_05 :: sim
  log_05 :: "effect list"

fun publish_loop_05 :: "nat \<Rightarrow> env \<Rightarrow> real \<Rightarrow> real \<Rightarrow> loop_05 \<Rightarrow> loop_05" where
  "publish_loop_05 0 e base_rate randomness st = st"
| "publish_loop_05 (Suc n) e base_rate randomness st =
     (case generate_event_05 e (config_05 st) (globals_05 st) of
        (Inl err, cfg1, s1) \<Rightarrow> st\<lparr>stopped_05 := Some err, config_05 := cfg1, globals_05 := s1\<rparr>
      | (Inr None, cfg1, s1) \<Rightarrow>
          publish_loop_05 n e base_rate randomness (st\<lparr>config_05 := cfg1, globals_05 := s1\<rparr>)
      | (Inr (Some ev), cfg1, s1) \<Rightarrow>
          (case pacing_05 e base_rate randomness s1 of
             (d, s2) \<Rightarrow>
               publish_loop_05 n e base_rate randomness
                 (st\<lparr>config_05 := cfg1, globals_05 := s2,
                     log_05 := log_05 st @ Publish ev # sleep_effects d\<rparr>)))"

definition publish_messages_batch_05 :: "nat \<Rightarrow> env \<Rightarrow> config \<Rightarrow> sim \<Rightarrow> loop_05" where
  "publish_messages_batch_05 n e cfg s =
     publish_loop_05 n e (get_or (events_per_second cfg) 0) (get_or (randomness_factor cfg) 0.1)
       \<lparr>stopped_05 = None, config_05 = cfg, globals_05 = s, log_05 = []\<rparr>"

section \<open>Startup\<close>

text \<open>\<^verbatim>\<open>not project_id\<close>: the key is absent or the string is empty.\<close>

definition falsy :: "string option \<Rightarrow> bool" where
  "falsy v = (case v of None \<Rightarrow> True | Some x \<Rightarrow> x = [])"

text \<open>The module globals of \<^verbatim>\<open>05\<close> as the import leaves them.\<close>

definition module_globals_05 :: sim where
  "module_globals_05 =
     \<lparr>rnd_pos = 0, mock_pos = 0, wall_pos = 0, now_pos = 0,
      USERS_BY_COUNTRY = [], GLOBAL_TIMESTAMP_MICROS = 0, GLOBAL_TIMESTAMP_HOUR = 0,
      GLOBAL_RATE_MAXIMUM = 0\<rparr>"

text \<open>
  The loop \<^verbatim>\<open>for country in keys\<close> of \<^verbatim>\<open>main\<close>: the list of keys is taken before the
  loop, the distribution is the dictionary that \<^verbatim>\<open>del\<close> changes.
\<close>

text \<open>
  \<^verbatim>\<open>int(country_distribution[country] * users_population_fraction / gke_replicas_factor)\<close>:
  a float product, a float quotient (\<^verbatim>\<open>ZeroDivisionError\<close> on a zero divisor) and the
  truncation, which raises on an infinity or a NaN.
\<close>

definition n_users_in_country :: "real \<Rightarrow> real \<Rightarrow> real \<Rightarrow> py_error + int" where
  "n_users_in_country weight fraction replicas =
     (if replicas = 0 then Inl ZeroDivisionError
      else (case float_div (to_float (weight * fraction)) replicas of
              Finite x \<Rightarrow> Inr (py_int x)
            | PosInf \<Rightarrow> Inl OverflowError
            | NegInf \<Rightarrow> Inl OverflowError
            | NaN \<Rightarrow> Inl (ValueError ''cannot convert float NaN to integer'')))"

fun init_users_05 :: "env \<Rightarrow> real \<Rightarrow> real \<Rightarrow> real \<Rightarrow> string list \<Rightarrow> (string \<times> real) list \<Rightarrow> sim \<Rightarrow> (py_error + (string \<times> real) list) \<times> sim" where
  "init_users_05 e fraction replicas per_second [] country_distribution s =
     (Inr country_distribution, s)"
| "init_users_05 e fraction replicas per_second (country # keys) country_distribution s =
     (case dict_get country_distribution country of
        Inl err \<Rightarrow> (Inl err, s)
      | Inr weight \<Rightarrow>
          (case n_users_in_country weight fraction replicas of
             Inl err \<Rightarrow> (Inl err, s)
           | Inr n \<Rightarrow>
               if n = 0
               then init_users_05 e fraction replicas per_second keys
                      (AList.delete country country_distribution) s
               else init_users_05 e fraction replicas per_second keys country_distribution
                      (s\<lparr>mock_pos := mock_pos s + nat n,
                         USERS_BY_COUNTRY :=
                           AList.update country
                             (map (mock_tokens e) [mock_pos s ..< mock_pos s + nat n])
                             (USERS_BY_COUNTRY s),
                         GLOBAL_RATE_MAXIMUM := GLOBAL_RATE_MAXIMUM s + of_int n * per_second\<rparr>)))"

text \<open>
  \<^verbatim>\<open>main\<close> of \<^verbatim>\<open>05\<close>, from the parsed configuration to the call of
  \<^verbatim>\<open>publish_messages_batch\<close>: \<open>Inr None\<close> is the early return for a missing project or
  topic, \<open>Inr (Some (cfg, s))\<close> the configuration and globals with which publishing starts.
\<close>

definition main_05 :: "env \<Rightarrow> config \<Rightarrow> sim \<Rightarrow> py_error + (config \<times> sim) option" where
  "main_05 e cfg s0 =
     (if falsy (gcp_project_id cfg) \<or> falsy (pubsub_topic_name cfg) then Inr None
      else
        (let ci = get_country_infos cfg;
             country_distribution = get_dict (distribution ci);
             zeros = map (\<lambda>cw. (fst cw, 0)) country_distribution;
             fraction = get_or (users_population_fraction cfg) 0.001;
             replicas = get_or (gke_replicas_factor cfg) 10;
             per_day = get_or (user_interactions_per_day cfg) 57;
             per_second = per_day / (24 * 60 * 60)
         in case init_users_05 e fraction replicas per_second (map fst country_distribution)
                   country_distribution s0 of
              (Inl err, s1) \<Rightarrow> Inl err
            | (Inr remaining, s1) \<Rightarrow>
                (let ci1 = ci\<lparr>distribution :=
                                (case distribution ci of None \<Rightarrow> None | Some _ \<Rightarrow> Some remaining),
                              distribution_modulated := Some zeros\<rparr>;
                     cfg1 = (case config_country_infos cfg of
                               None \<Rightarrow> cfg
                             | Some _ \<Rightarrow> cfg\<lparr>config_country_infos := Some ci1\<rparr>)
                 in case get_current_timestamp_micros e s1 of
                      (micros, s2) \<Rightarrow>
                        (case get_current_hour e (s2\<lparr>GLOBAL_TIMESTAMP_MICROS := micros\<rparr>) of
                           (hour, s3) \<Rightarrow>
                             Inr (Some (cfg1,
                               (s3\<lparr>GLOBAL_TIMESTAMP_HOUR := hour\<rparr>)
                                 \<lparr>GLOBAL_TIMESTAMP_MICROS := 1760854441420750,
                                  GLOBAL_TIMESTAMP_HOUR := 6.233727986111111\<rparr>))))))"

section \<open>A concrete run\<close>

text \<open>
  A configuration with two countries, one of which is too small to receive a user, and an
  environment whose draws are all \<open>0\<close>.
\<close>

definition example_config :: config where
  "example_config =
     \<lparr>gcp_project_id = Some ''p'', pubsub_topic_name = Some ''t'',
      event_type_distribution = Some [(''in_app_purchase'', 1)],
      device_type_distribution = Some [(''phone'', 1)],
      config_country_infos =
        Some \<lparr>distribution = Some [(''IR'', 100000), (''XX'', 0.001)],
              timezone = Some [(''IR'', 3.5), (''XX'', 0)],
              distribution_modulated = None\<rparr>,
      events_per_second = Some 0, randomness_factor = None,
      users_population_fraction = None, gke_replicas_factor = None,
      user_interactions_per_day = None\<rparr>"

definition example_env :: env where
  "example_env =
     \<lparr>uniform_draws = (\<lambda>_. 0), mock_tokens = (\<lambda>_. ''tok''),
      wall_seconds = (\<lambda>_. 1800000000), tehran_now = (\<lambda>_. (12, 30))\<rparr>"

text \<open>
  The configuration and the globals with which \<^verbatim>\<open>main\<close> of \<^verbatim>\<open>05\<close> starts publishing
  in this run: ten users in the first country, the second country dropped.
\<close>

definition example_running_config :: config where
  "example_running_config =
     example_config\<lparr>config_country_infos :=
       Some \<lparr>distribution = Some [(''IR'', 100000)],
             timezone = Some [(''IR'', 3.5), (''XX'', 0)],
             distribution_modulated = Some [(''IR'', 0), (''XX'', 0)]\<rparr>\<rparr>"

definition example_running_globals :: sim where
  "example_running_globals =
     \<lparr>rnd_pos = 0, mock_pos = 10, wall_pos = 1, now_pos = 1,
      USERS_BY_COUNTRY = [(''IR'', replicate 10 ''tok'')],
      GLOBAL_TIMESTAMP_MICROS = 1760854441420750,
      GLOBAL_TIMESTAMP_HOUR = 6.233727986111111,
      GLOBAL_RATE_MAXIMUM = 19 / 2880\<rparr>"

text \<open>The event that the first call of \<^verbatim>\<open>generate_event\<close> returns in this run.\<close>

definition example_event :: event where
  "example_event =
     \<lparr>generation_timestamp = 1800000000000000, event_id = ''tok'',
      event_timestamp = Micros 1760854441420750, user_id = ''tok'', session_id = ''tok'',
      event_type = ''in_app_purchase'', app_id = ''app_1000'', device_type = ''phone'',
      os_version = ''iOS 12.0'', country_code = ''IR'',
      event_details =
        [(''item_id'', JString ''iap_100''),
         (''price_usd'', JFloat (binary64_round (99 / 100)))]\<rparr>"

definition example_running_config_after :: config where
  "example_running_config_after =
     example_config\<lparr>config_country_infos :=
       Some \<lparr>distribution = Some [(''IR'', 100000)],
             timezone = Some [(''IR'', 3.5), (''XX'', 0)],
             distribution_modulated = Some [(''IR'', 46400), (''XX'', 0)]\<rparr>\<rparr>"

text \<open>
  A second environment, whose acceptance draw (the second draw) is \<open>3/4\<close>, and globals
  with a maximum rate above the modulated sum: the first arrival is rejected.
\<close>

definition example_env_rejecting :: env where
  "example_env_rejecting =
     example_env\<lparr>uniform_draws := (\<lambda>k. if k = 1 then 3/4 else 0)\<rparr>"

definition example_globals_rejecting :: sim where
  "example_globals_rejecting = example_running_globals\<lparr>GLOBAL_RATE_MAXIMUM := 100000\<rparr>"

section \<open>Properties\<close>

subsection \<open>Binary64 rounding\<close>

lemma pow2_powr: "pow2 k = 2 powr (of_int k)"
proof (cases "0 \<le> k")
  case True
  then have "2 powr (of_int k) = (2::real) powr (real (nat k))" by simp
  also have "\<dots> = 2 ^ nat k" by (simp add: powr_realpow)
  finally show ?thesis using True by (simp add: pow2_def)
next
  case False
  then have "(2::real) powr (of_int k) = 2 powr (- real (nat (- k)))" by simp
  also have "\<dots> = 1 / 2 ^ nat (- k)" by (simp add: powr_minus powr_realpow divide_inverse)
  finally show ?thesis using False by (simp add: pow2_def)
qed

lemma pow2_pos: "0 < pow2 k"
  by (simp add: pow2_powr)

lemma pow2_add: "pow2 (a + b) = pow2 a * pow2 b"
  by (simp add: pow2_powr powr_add)

lemma pow2_nat: "0 \<le> k \<Longrightarrow> pow2 k = of_int (2 ^ nat k)"
  by (simp add: pow2_def)

lemma binary64_exponent_eq:
  assumes "pow2 k \<le> \<bar>x\<bar>" and "\<bar>x\<bar> < pow2 (k + 1)" and "- 1022 \<le> k"
  shows "binary64_exponent x = k"
proof -
  have "0 < pow2 k" by (rule pow2_pos)
  with assms(1) have pos: "0 < \<bar>x\<bar>" by linarith
  have "\<lfloor>log 2 \<bar>x\<bar>\<rfloor> = k"
    using assms(1,2) pos by (subst floor_log_eq_powr_iff) (simp_all add: pow2_powr)
  with assms(3) show ?thesis by (simp add: binary64_exponent_def)
qed

lemma binary64_exponent_le:
  assumes "x \<noteq> 0" and "\<bar>x\<bar> < pow2 (k + 1)" and "- 1022 \<le> k"
  shows "binary64_exponent x \<le> k"
proof -
  from assms(1) have pos: "0 < \<bar>x\<bar>" by simp
  have "log 2 \<bar>x\<bar> < of_int (k + 1)"
    using assms(2) pos by (simp add: pow2_powr log_less_iff)
  then have "\<lfloor>log 2 \<bar>x\<bar>\<rfloor> < k + 1" by (simp only: floor_less_iff)
  with assms(3) show ?thesis by (simp add: binary64_exponent_def)
qed

lemma round_half_even_of_int: "round_half_even (of_int n) = n"
  by (simp add: round_half_even_def)

lemma round_half_even_nonneg: "0 \<le> y \<Longrightarrow> 0 \<le> round_half_even y"
  by (auto simp: round_half_even_def Let_def)

lemma round_half_even_le: 
  assumes "y \<le> of_int n" 
  shows "round_half_even y \<le> n"
proof (cases "y = of_int n")
  case True
  then show ?thesis by (simp add: round_half_even_of_int)
next
  case False
  with assms have "y < of_int n" by simp
  then have "\<lfloor>y\<rfloor> < n" by (simp add: floor_less_iff)
  then show ?thesis by (auto simp: round_half_even_def Let_def)
qed

lemma binary64_round_dyadic:
  assumes x: "x = of_int m * pow2 j" and m: "\<bar>m\<bar> < 2 ^ 53" and j: "- 1074 \<le> j"
  shows "binary64_round x = x"
proof (cases "x = 0")
  case True
  then show ?thesis by (simp add: binary64_round_def)
next
  case False
  define e where "e = binary64_exponent x"
  have "\<bar>x\<bar> = of_int \<bar>m\<bar> * pow2 j"
    using pow2_pos [of j] by (simp add: x abs_mult)
  also have "\<dots> < of_int (2 ^ 53) * pow2 j"
    using m pow2_pos [of j] by (intro mult_strict_right_mono) (simp_all del: of_int_power of_int_numeral)
  also have "\<dots> = pow2 (j + 53)"
  proof -
    have "pow2 53 = of_int (2 ^ 53)" by (simp add: pow2_def)
    then show ?thesis by (simp only: pow2_add mult.commute)
  qed
  also have "j + 53 = max j (- 1074) + 52 + 1" using j by simp
  finally have "\<bar>x\<bar> < pow2 (max j (- 1074) + 52 + 1)" .
  moreover have "- 1022 \<le> max j (- 1074) + 52" by simp
  ultimately have "e \<le> max j (- 1074) + 52"
    unfolding e_def using False by (intro binary64_exponent_le)
  with j have d: "0 \<le> j - (e - 52)" by simp
  have "pow2 j = pow2 (e - 52) * pow2 (j - (e - 52))"
    by (simp add: pow2_add [symmetric])
  also have "\<dots> = pow2 (e - 52) * of_int (2 ^ nat (j - (e - 52)))"
    using d by (simp only: pow2_nat)
  finally have pj: "pow2 j = pow2 (e - 52) * of_int (2 ^ nat (j - (e - 52)))" .
  have "x / pow2 (e - 52) = of_int (m * 2 ^ nat (j - (e - 52)))"
    using pow2_pos [of "e - 52"] by (simp add: x pj del: of_int_power)
  then have "of_int (round_half_even (x / pow2 (e - 52))) * pow2 (e - 52) =
      of_int (m * 2 ^ nat (j - (e - 52))) * pow2 (e - 52)"
    by (simp only: round_half_even_of_int)
  also have "\<dots> = x" by (simp add: x pj del: of_int_power)
  finally show ?thesis
    using False by (simp add: binary64_round_def Let_def e_def)
qed

lemma binary64_round_int: "\<bar>m\<bar> < 2 ^ 53 \<Longrightarrow> binary64_round (of_int m) = of_int m"
  using binary64_round_dyadic [of "of_int m" m 0] by (simp add: pow2_def)

lemma binary64_round_nonneg:
  assumes "0 \<le> x"
  shows "0 \<le> binary64_round x"
proof (cases "x = 0")
  case True
  then show ?thesis by (simp add: binary64_round_def)
next
  case False
  define q where "q = pow2 (binary64_exponent x - 52)"
  have "0 < q" unfolding q_def by (rule pow2_pos)
  with assms have "0 \<le> x / q" by simp
  then have "0 \<le> round_half_even (x / q)" by (rule round_half_even_nonneg)
  with \<open>0 < q\<close> have "0 \<le> of_int (round_half_even (x / q)) * q" by simp
  with False show ?thesis by (simp add: binary64_round_def Let_def q_def)
qed

lemma binary64_round_le_pow2:
  assumes "0 \<le> x" and "x \<le> pow2 k" and "- 1022 \<le> k"
  shows "binary64_round x \<le> pow2 k"
proof (cases "x = 0")
  case True
  then show ?thesis using pow2_pos [of k] by (simp add: binary64_round_def)
next
  case False
  define e where "e = binary64_exponent x"
  have "pow2 1 = 2" by (simp add: pow2_def)
  then have "pow2 k < pow2 (k + 1)" using pow2_pos [of k] by (simp add: pow2_add)
  with assms have "\<bar>x\<bar> < pow2 (k + 1)" by simp
  then have "e \<le> k" unfolding e_def using False assms(3) by (intro binary64_exponent_le)
  then have d: "0 \<le> k - (e - 52)" by simp
  have "pow2 k = pow2 (e - 52) * pow2 (k - (e - 52))"
    by (simp add: pow2_add [symmetric])
  also have "\<dots> = pow2 (e - 52) * of_int (2 ^ nat (k - (e - 52)))"
    using d by (simp only: pow2_nat)
  finally have pk: "pow2 k = of_int (2 ^ nat (k - (e - 52))) * pow2 (e - 52)" by simp
  have "x / pow2 (e - 52) \<le> of_int (2 ^ nat (k - (e - 52)))"
    using assms(2) pow2_pos [of "e - 52"] by (simp only: pk pos_divide_le_eq)
  then have "round_half_even (x / pow2 (e - 52)) \<le> 2 ^ nat (k - (e - 52))"
    by (rule round_half_even_le)
  then have "of_int (round_half_even (x / pow2 (e - 52))) * pow2 (e - 52) \<le>
      of_int (2 ^ nat (k - (e - 52))) * pow2 (e - 52)"
    using pow2_pos [of "e - 52"] by (intro mult_right_mono) (simp_all only: of_int_le_iff less_imp_le)
  then show ?thesis
    using False by (simp only: binary64_round_def Let_def e_def pk if_False)
qed

lemma to_float_int: "\<bar>m\<bar> < 2 ^ 53 \<Longrightarrow> to_float (of_int m) = Finite (of_int m)"
proof -
  assume m: "\<bar>m\<bar> < 2 ^ 53"
  then have "\<bar>(of_int m :: real)\<bar> < of_int (2 ^ 53)"
    by (simp only: of_int_abs [symmetric] of_int_less_iff)
  moreover have "(of_int (2 ^ 53) :: real) < pow2 1024" by (simp add: pow2_def)
  ultimately have "\<bar>(of_int m :: real)\<bar> < pow2 1024" by linarith
  then show ?thesis using m by (simp add: to_float_def binary64_round_int Let_def abs_less_iff)
qed

lemma to_float_small:
  assumes "0 \<le> x" and "x \<le> pow2 k" and "- 1022 \<le> k" and "k < 1024"
  shows "\<exists>y. to_float x = Finite y \<and> 0 \<le> y \<and> y \<le> pow2 k"
proof -
  have "(2::real) powr (of_int k) < 2 powr (of_int 1024)"
    using assms(4) by (intro powr_less_mono) simp_all
  then have "pow2 k < pow2 1024" by (simp only: pow2_powr)
  moreover have "0 < pow2 1024" by (rule pow2_pos)
  ultimately show ?thesis
    using binary64_round_nonneg [OF assms(1)] binary64_round_le_pow2 [OF assms(1,2,3)]
    by (simp add: to_float_def Let_def)
qed

lemma to_float_zero: "to_float 0 = Finite 0"
  using to_float_int [of 0] by simp

lemma to_float_one: "to_float 1 = Finite 1"
  using to_float_int [of 1] by simp

lemma to_float_overflow: "to_float (2 ^ 1024) = PosInf"
proof -
  have "binary64_exponent (2 ^ 1024) = 1024"
    by (rule binary64_exponent_eq) (simp_all add: pow2_def)
  then have "binary64_round (2 ^ 1024) = 2 ^ 1024"
    by (simp add: binary64_round_def pow2_def round_half_even_def Let_def)
  then show ?thesis by (simp add: to_float_def pow2_def Let_def)
qed

subsection \<open>The size of a user pool\<close>

lemma n_users_in_country_small:
  assumes "0 \<le> weight * fraction" and "weight * fraction \<le> 1" and "2 \<le> replicas"
  shows "n_users_in_country weight fraction replicas = Inr 0"
proof -
  have p0: "pow2 0 = 1" and p1: "pow2 (- 1) = 1 / 2" by (simp_all add: pow2_def)
  obtain y where y: "to_float (weight * fraction) = Finite y" "0 \<le> y" "y \<le> 1"
    using to_float_small [of "weight * fraction" 0] assms(1,2) by (auto simp: p0)
  have "y / replicas \<le> 1 / 2"
  proof -
    have "y / replicas \<le> 1 / replicas" using y(3) assms(3) by (simp add: divide_right_mono)
    also have "\<dots> \<le> 1 / 2" using assms(3) by (simp add: frac_le)
    finally show ?thesis .
  qed
  moreover have "0 \<le> y / replicas" using y(2) assms(3) by simp
  ultimately obtain z where z: "to_float (y / replicas) = Finite z" "0 \<le> z" "z \<le> 1 / 2"
    using to_float_small [of "y / replicas" "- 1"] by (auto simp: p1)
  from z(2,3) have "py_int z = 0" by (simp add: py_int_def floor_eq_iff)
  with y(1) z(1) assms(3) show ?thesis by (simp add: n_users_in_country_def)
qed

lemma n_users_in_country_example: "n_users_in_country 100000 (1 / 1000) 10 = Inr 10"
  using to_float_int [of 100] to_float_int [of 10]
  by (simp add: n_users_in_country_def py_int_def)

lemma init_users_05_example:
  "init_users_05 e (1 / 1000) 10 per_second [''IR'', ''XX'']
     [(''IR'', 100000), (''XX'', 1 / 1000)] module_globals_05 =
   (Inr [(''IR'', 100000)],
    module_globals_05\<lparr>mock_pos := 10,
      USERS_BY_COUNTRY := [(''IR'', map (mock_tokens e) [0 ..< 10])],
      GLOBAL_RATE_MAXIMUM := 10 * per_second\<rparr>)"
  using n_users_in_country_small [of "1 / 1000" "1 / 1000" 10]
  by (simp add: dict_get_def n_users_in_country_example module_globals_05_def)

subsection \<open>Weighted sampling\<close>

lemma bisect_bounds: "lo \<le> hi \<Longrightarrow> lo \<le> bisect a x lo hi \<and> bisect a x lo hi \<le> hi"
proof (induction a x lo hi rule: bisect.induct)
  case (1 a x lo hi)
  show ?case
  proof (cases "lo < hi")
    case False
    with "1.prems" show ?thesis by (subst bisect.simps, subst bisect.simps) simp
  next
    case lt: True
    then have mid: "lo \<le> (lo + hi) div 2" "(lo + hi) div 2 < hi" by auto
    show ?thesis
    proof (cases "float_less x (a ! ((lo + hi) div 2))")
      case True
      with lt mid "1.IH"(1) have "lo \<le> bisect a x lo ((lo + hi) div 2) \<and> bisect a x lo ((lo + hi) div 2) \<le> (lo + hi) div 2"
        by simp
      moreover have "bisect a x lo hi = bisect a x lo ((lo + hi) div 2)"
        using True lt by (subst bisect.simps) simp
      ultimately show ?thesis using mid by linarith
    next
      case False
      with lt mid "1.IH"(2) have "(lo + hi) div 2 + 1 \<le> bisect a x ((lo + hi) div 2 + 1) hi \<and> bisect a x ((lo + hi) div 2 + 1) hi \<le> hi"
        by simp
      moreover have "bisect a x lo hi = bisect a x ((lo + hi) div 2 + 1) hi"
        using False lt by (subst bisect.simps) simp
      ultimately show ?thesis using mid by linarith
    qed
  qed
qed

lemma length_accumulate_from: "length (accumulate_from running ws) = length ws"
  by (induction ws arbitrary: running) simp_all

lemma length_accumulate: "length (accumulate ws) = length ws"
  by (cases ws) (simp_all add: accumulate_def length_accumulate_from)

text \<open>
  C7, as stated, fails on a non-empty distribution whose only weight is zero:
  \<^verbatim>\<open>random.choices\<close> raises \<^verbatim>\<open>ValueError\<close> (total of weights not greater than
  zero), so no label is returned.
\<close>

theorem get_weighted_choice_zero_total:
  "fst (get_weighted_choice example_env [(''A'', 0)] module_globals_05) =
     Inl (ValueError ''Total of weights must be greater than zero'')"
  by (simp add: get_weighted_choice_def choices_def accumulate_def Let_def to_float_zero)

text \<open>
  C7, amended.  On the empty distribution the sampler raises the \<^verbatim>\<open>ValueError\<close> of its
  own guard and reads no draw.  On a non-empty distribution whose total weight, summed
  left to right in binary64 as \<^verbatim>\<open>random.choices\<close> sums it, is finite and greater than
  zero, it returns exactly one label, a key of the distribution, and reads exactly one
  draw, whatever the draw is.
\<close>

theorem get_weighted_choice_outcome:
  "(d = [] \<longrightarrow>
      get_weighted_choice e d s =
        (Inl (ValueError ''Distribution dictionary cannot be empty''), s)) \<and>
   (d \<noteq> [] \<and> (\<exists>t. float_add (last (accumulate (map snd d))) (Finite 0) = Finite t \<and> 0 < t) \<longrightarrow>
      (\<exists>label \<in> fst ` set d.
         get_weighted_choice e d s = (Inr label, s\<lparr>rnd_pos := Suc (rnd_pos s)\<rparr>)))"
proof (intro conjI impI)
  show "get_weighted_choice e d s =
      (Inl (ValueError ''Distribution dictionary cannot be empty''), s)" if "d = []"
    using that by (simp add: get_weighted_choice_def)
next
  assume a: "d \<noteq> [] \<and> (\<exists>t. float_add (last (accumulate (map snd d))) (Finite 0) = Finite t \<and> 0 < t)"
  then obtain t where t: "float_add (last (accumulate (map snd d))) (Finite 0) = Finite t" "0 < t"
    by blast
  define i where "i = bisect (accumulate (map snd d))
      (to_float (uniform_draws e (rnd_pos s) * t)) 0 (length (map fst d) - 1)"
  have "i \<le> length (map fst d) - 1"
    unfolding i_def using bisect_bounds [of 0 "length (map fst d) - 1"] by simp
  with a have "i < length d" by (cases d) auto
  then have mem: "map fst d ! i \<in> fst ` set d"
    by (metis length_map nth_mem set_map)
  from a have ne: "accumulate (map snd d) \<noteq> []"
    using length_accumulate [of "map snd d"] by auto
  from a t ne have "get_weighted_choice e d s =
      (Inr (map fst d ! i), s\<lparr>rnd_pos := Suc (rnd_pos s)\<rparr>)"
    by (simp add: get_weighted_choice_def choices_def Let_def next_uniform_def i_def
        length_accumulate)
  with mem show "\<exists>label \<in> fst ` set d.
         get_weighted_choice e d s = (Inr label, s\<lparr>rnd_pos := Suc (rnd_pos s)\<rparr>)"
    by blast
qed

theorem get_weighted_choice_outcome_witness:
  "get_weighted_choice example_env [(''phone'', 1)] module_globals_05 =
     (Inr ''phone'', module_globals_05\<lparr>rnd_pos := 1\<rparr>) \<and>
   get_weighted_choice example_env [] module_globals_05 =
     (Inl (ValueError ''Distribution dictionary cannot be empty''), module_globals_05)"
  using get_weighted_choice_outcome [of "[(''phone'', 1)]" example_env module_globals_05]
    get_weighted_choice_outcome [of "[]" example_env module_globals_05]
  by (simp add: module_globals_05_def accumulate_def to_float_one)

text \<open>
  Two weights whose sum overflows: the total is infinite and the sampler raises.
\<close>

lemma get_weighted_choice_overflow_example:
  "fst (get_weighted_choice example_env [(''A'', 2 ^ 1023), (''B'', 2 ^ 1023)] module_globals_05) =
     Inl (ValueError ''Total of weights must be finite'')"
proof -
  have "float_add (Finite (2 ^ 1023)) (Finite (2 ^ 1023)) = PosInf"
    using to_float_overflow by simp
  then show ?thesis
    by (simp add: get_weighted_choice_def choices_def accumulate_def Let_def)
qed

subsection \<open>Startup\<close>

text \<open>
  C9.  Whatever the environment is (wall clock readings, Tehran time, tokens, draws) and
  whatever the globals are before the call: when the project and the topic are set and
  the construction of the user pools does not raise, \<^verbatim>\<open>main\<close> of the Poisson publisher
  reaches the call of \<^verbatim>\<open>publish_messages_batch\<close>, and the virtual clock it starts with
  is the embedded resume point, 1760854441420750 microseconds and hour
  6.233727986111111.  No run reaches that call with another clock.
\<close>

theorem main_05_resume_point:
  "(\<forall>cfg1 s1. main_05 e cfg s0 = Inr (Some (cfg1, s1)) \<longrightarrow>
      GLOBAL_TIMESTAMP_MICROS s1 = 1760854441420750 \<and>
      GLOBAL_TIMESTAMP_HOUR s1 = 6.233727986111111) \<and>
   (\<not> falsy (gcp_project_id cfg) \<and> \<not> falsy (pubsub_topic_name cfg) \<and>
    (\<exists>remaining.
       fst (init_users_05 e (get_or (users_population_fraction cfg) 0.001)
              (get_or (gke_replicas_factor cfg) 10)
              (get_or (user_interactions_per_day cfg) 57 / (24 * 60 * 60))
              (map fst (get_dict (distribution (get_country_infos cfg))))
              (get_dict (distribution (get_country_infos cfg))) s0) = Inr remaining) \<longrightarrow>
      (\<exists>cfg1 s1. main_05 e cfg s0 = Inr (Some (cfg1, s1)) \<and>
         GLOBAL_TIMESTAMP_MICROS s1 = 1760854441420750 \<and>
         GLOBAL_TIMESTAMP_HOUR s1 = 6.233727986111111))"
  by (auto simp: main_05_def Let_def split: if_splits prod.splits sum.splits)

theorem main_05_resume_point_witness:
  "\<forall>wall now. \<exists>cfg1 s1.
     main_05 (example_env\<lparr>wall_seconds := wall, tehran_now := now\<rparr>) example_config
       module_globals_05 = Inr (Some (cfg1, s1)) \<and>
     GLOBAL_TIMESTAMP_MICROS s1 = 1760854441420750 \<and>
     GLOBAL_TIMESTAMP_HOUR s1 = 6.233727986111111"
proof (intro allI)
  fix wall now
  have "\<not> falsy (gcp_project_id example_config) \<and> \<not> falsy (pubsub_topic_name example_config) \<and>
    (\<exists>remaining.
       fst (init_users_05 (example_env\<lparr>wall_seconds := wall, tehran_now := now\<rparr>)
              (get_or (users_population_fraction example_config) 0.001)
              (get_or (gke_replicas_factor example_config) 10)
              (get_or (user_interactions_per_day example_config) 57 / (24 * 60 * 60))
              (map fst (get_dict (distribution (get_country_infos example_config))))
              (get_dict (distribution (get_country_infos example_config))) module_globals_05)
         = Inr remaining)"
    by (simp add: example_config_def falsy_def get_country_infos_def get_dict_def get_or_def
        init_users_05_example del: init_users_05.simps)
  with main_05_resume_point [of "example_env\<lparr>wall_seconds := wall, tehran_now := now\<rparr>"
      example_config module_globals_05]
  show "\<exists>cfg1 s1.
     main_05 (example_env\<lparr>wall_seconds := wall, tehran_now := now\<rparr>) example_config
       module_globals_05 = Inr (Some (cfg1, s1)) \<and>
     GLOBAL_TIMESTAMP_MICROS s1 = 1760854441420750 \<and>
     GLOBAL_TIMESTAMP_HOUR s1 = 6.233727986111111"
    by blast
qed

lemma binary64_round_numeral:
  "(numeral n :: int) < 2 ^ 53 \<Longrightarrow> binary64_round (numeral n) = numeral n"
  using binary64_round_int [of "numeral n"] by simp

lemma to_float_numeral:
  "(numeral n :: int) < 2 ^ 53 \<Longrightarrow> to_float (numeral n) = Finite (numeral n)"
  using to_float_int [of "numeral n"] by simp

subsection \<open>The table lookup\<close>

lemma binary64_round_below_24: "binary64_round (24 - 1 / 2 ^ 60) = 24"
proof -
  have "binary64_exponent (24 - 1 / 2 ^ 60) = 4"
    by (rule binary64_exponent_eq) (simp_all add: pow2_def)
  then show ?thesis
    by (simp add: binary64_round_def pow2_def round_half_even_def Let_def)
qed

lemma float_rem_tiny_negative: "float_rem (- (1 / 2 ^ 60)) 24 = 24"
proof -
  define x :: real where "x = - (1 / 2 ^ 60)"
  have x: "x < 0" "- 1 < x / 24" "x / 24 \<le> 0" by (simp_all add: x_def)
  then have trunc: "py_int (x / 24) = 0" by (simp add: py_int_def ceiling_eq_iff)
  have "x + 24 = 24 - 1 / 2 ^ 60" by (simp add: x_def)
  then have "binary64_round (x + 24) = 24" by (simp only: binary64_round_below_24)
  with x(1) trunc have "float_rem x 24 = 24" by (simp add: float_rem_def Let_def)
  then show ?thesis by (simp only: x_def)
qed

text \<open>
  C10.  The claim does not hold of the code at the hour \<open>-2\<^sup>-\<^sup>6\<^sup>0\<close>: the remainder
  \<^verbatim>\<open>hour % 24\<close> is the float sum of \<open>-2\<^sup>-\<^sup>6\<^sup>0\<close> and 24, which rounds to 24, the index
  is 120 and the table access raises \<^verbatim>\<open>IndexError\<close>.
\<close>

theorem user_daily_activity_pattern_05_tiny_negative_hour:
  "user_daily_activity_pattern_05 (- (1 / 2 ^ 60)) = Inl IndexError"
  unfolding user_daily_activity_pattern_05_def table_index_def float_rem_tiny_negative
  by (simp add: binary64_round_numeral py_int_def list_get_def HOURLY_MODULATION_FACTORS_def)






subsection \<open>Time-modulated weights\<close>







subsection \<open>User pools at startup\<close>





subsection \<open>The concrete run, evaluated\<close>

lemma bisect_single: "bisect a x 0 0 = 0"
  by (subst bisect.simps) simp

lemma example_hour_rounded:
  "py_round2 (6233727986111111 / 1000000000000000) = 1753589104907387 / 281474976710656"
proof -
  have "binary64_exponent (623 / 100) = 2"
    by (rule binary64_exponent_eq) (simp_all add: pow2_def)
  then have "binary64_round (623 / 100) = 1753589104907387 / 281474976710656"
    by (simp add: binary64_round_def pow2_def round_half_even_def Let_def)
  then show ?thesis
    by (simp add: py_round2_def round_half_even_def Let_def)
qed

lemma example_country_hour:
  "binary64_round (2738751523394683 / 281474976710656) = 2738751523394683 / 281474976710656"
  using binary64_round_dyadic [of "2738751523394683 / 281474976710656" 2738751523394683 "- 48"]
  by (simp add: pow2_def)

lemma example_lookup:
  "user_daily_activity_pattern_05 (2738751523394683 / 281474976710656) = Inr (464 / 1000)"
proof -
  have "binary64_exponent (13693757616973415 / 281474976710656) = 5"
    by (rule binary64_exponent_eq) (simp_all add: pow2_def)
  then have r: "binary64_round (13693757616973415 / 281474976710656) =
      1711719702121677 / 35184372088832"
    by (simp add: binary64_round_def pow2_def round_half_even_def Let_def)
  show ?thesis
    by (simp add: user_daily_activity_pattern_05_def table_index_def float_rem_def Let_def r
        py_int_def list_get_def HOURLY_MODULATION_FACTORS_def)
qed

lemma example_weights:
  "generate_time_modulated_weights_05 (6233727986111111 / 1000000000000000)
     \<lparr>distribution = Some [(''IR'', 100000)],
      timezone = Some [(''IR'', 7 / 2), (''XX'', 0)],
      distribution_modulated = Some [(''IR'', 0), (''XX'', 0)]\<rparr> =
   (Inr ([(''IR'', 46400), (''XX'', 0)], Finite 46400),
    \<lparr>distribution = Some [(''IR'', 100000)],
     timezone = Some [(''IR'', 7 / 2), (''XX'', 0)],
     distribution_modulated = Some [(''IR'', 46400), (''XX'', 0)]\<rparr>)"
  by (simp add: generate_time_modulated_weights_05_def example_running_config_def
      example_config_def get_country_infos_def get_dict_def dict_get_def Let_def
      example_hour_rounded example_country_hour example_lookup binary64_round_numeral
      to_float_numeral)

lemma to_float_nonneg_not_less:
  assumes "0 \<le> x" and "u \<le> 0"
  shows "\<not> float_less (to_float x) (Finite u)"
proof -
  have "0 \<le> binary64_round x" using assms(1) by (rule binary64_round_nonneg)
  moreover have "0 < pow2 1024" by (rule pow2_pos)
  ultimately show ?thesis using assms(2) by (simp add: to_float_def Let_def)
qed

lemma to_float_small_less:
  assumes "0 \<le> x" and "x \<le> 1 / 2" and "1 / 2 < u"
  shows "float_less (to_float x) (Finite u)"
proof -
  have "pow2 (- 1) = 1 / 2" by (simp add: pow2_def)
  with to_float_small [of x "- 1"] assms(1,2) obtain y where
    "to_float x = Finite y" "y \<le> 1 / 2" by auto
  with assms(3) show ?thesis by simp
qed

lemmas example_run_defs =
  get_country_infos_def
  accepted_event_05_def and_then_def get_weighted_choice_def choices_def accumulate_def
  Let_def next_uniform_def expovariate_def dict_get_def get_dict_def
  choice_step_def choice_def event_details_obj_def randint_def uniform_def
  py_round2_def round_half_even_def get_current_timestamp_micros_def py_int_def
  next_token_def app_id_string_def os_version_string_def str_int_def str_nat.simps digit_char_def
  example_env_def example_running_globals_def example_running_config_def example_config_def
  example_event_def example_running_config_after_def bisect_single
  to_float_numeral to_float_zero to_float_one

lemma example_accepted:
  "accepted_event_05 example_env example_running_config_after [(''IR'', 46400), (''XX'', 0)]
     (example_running_globals\<lparr>rnd_pos := 2\<rparr>)
   = (Inr example_event, example_running_globals\<lparr>rnd_pos := 12, mock_pos := 12, wall_pos := 2\<rparr>)"
  apply (simp add: example_run_defs)
  apply (subst bisect.simps, simp)
  apply (subst bisect.simps, simp)
  done

lemma example_first_event:
  "generate_event_05 example_env example_running_config example_running_globals =
     (Inr (Some example_event), example_running_config_after,
      example_running_globals\<lparr>rnd_pos := 12, mock_pos := 12, wall_pos := 2\<rparr>)"
proof -
  have acc: "\<not> float_less (to_float (133632000 / 19)) (Finite 0)"
    by (rule to_float_nonneg_not_less) simp_all
  note w = example_weights
  have cfg: "example_running_config\<lparr>config_country_infos :=
       Some \<lparr>distribution = Some [(''IR'', 100000)],
             timezone = Some [(''IR'', 7 / 2), (''XX'', 0)],
             distribution_modulated = Some [(''IR'', 46400), (''XX'', 0)]\<rparr>\<rparr> =
       example_running_config_after"
    by (simp add: example_running_config_def example_running_config_after_def)
  have ci: "config_country_infos example_running_config =
       Some \<lparr>distribution = Some [(''IR'', 100000)],
             timezone = Some [(''IR'', 7 / 2), (''XX'', 0)],
             distribution_modulated = Some [(''IR'', 0), (''XX'', 0)]\<rparr>"
    by (simp add: example_running_config_def)
  have g: "rnd_pos example_running_globals = 0"
    "GLOBAL_RATE_MAXIMUM example_running_globals = 19 / 2880"
    "GLOBAL_TIMESTAMP_MICROS example_running_globals = 1760854441420750"
    "GLOBAL_TIMESTAMP_HOUR example_running_globals = 6233727986111111 / 1000000000000000"
    by (simp_all add: example_running_globals_def)
  have u: "uniform_draws example_env k = 0" for k by (simp add: example_env_def)
  have s2: "example_running_globals\<lparr>rnd_pos := Suc 0,
         GLOBAL_TIMESTAMP_MICROS := 1760854441420750,
         GLOBAL_TIMESTAMP_HOUR := 6233727986111111 / 1000000000000000\<rparr> =
       example_running_globals\<lparr>rnd_pos := Suc 0\<rparr>"
    by (simp add: example_running_globals_def)
  have s3: "example_running_globals\<lparr>rnd_pos := Suc (Suc 0)\<rparr> =
      example_running_globals\<lparr>rnd_pos := 2\<rparr>" by simp
  show ?thesis
    unfolding generate_event_05_def get_country_infos_def
    by (simp add: next_uniform_def expovariate_def Let_def u g py_int_def w ci cfg s2 acc
        example_accepted s3 del: One_nat_def)
qed

lemma example_rejected:
  "generate_event_05 example_env_rejecting example_running_config example_globals_rejecting =
     (Inr None, example_running_config_after, example_globals_rejecting\<lparr>rnd_pos := 2\<rparr>)"
proof -
  have rej: "float_less (to_float (58 / 125)) (Finite (3 / 4))"
    by (rule to_float_small_less) simp_all
  note w = example_weights
  have cfg: "example_running_config\<lparr>config_country_infos :=
       Some \<lparr>distribution = Some [(''IR'', 100000)],
             timezone = Some [(''IR'', 7 / 2), (''XX'', 0)],
             distribution_modulated = Some [(''IR'', 46400), (''XX'', 0)]\<rparr>\<rparr> =
       example_running_config_after"
    by (simp add: example_running_config_def example_running_config_after_def)
  have ci: "config_country_infos example_running_config =
       Some \<lparr>distribution = Some [(''IR'', 100000)],
             timezone = Some [(''IR'', 7 / 2), (''XX'', 0)],
             distribution_modulated = Some [(''IR'', 0), (''XX'', 0)]\<rparr>"
    by (simp add: example_running_config_def)
  have g: "rnd_pos example_globals_rejecting = 0"
    "GLOBAL_RATE_MAXIMUM example_globals_rejecting = 100000"
    "GLOBAL_TIMESTAMP_MICROS example_globals_rejecting = 1760854441420750"
    "GLOBAL_TIMESTAMP_HOUR example_globals_rejecting = 6233727986111111 / 1000000000000000"
    by (simp_all add: example_globals_rejecting_def example_running_globals_def)
  have u: "uniform_draws example_env_rejecting 0 = 0"
    "uniform_draws example_env_rejecting (Suc 0) = 3 / 4"
    by (simp_all add: example_env_rejecting_def)
  have s2: "example_globals_rejecting\<lparr>rnd_pos := Suc 0,
         GLOBAL_TIMESTAMP_MICROS := 1760854441420750,
         GLOBAL_TIMESTAMP_HOUR := 6233727986111111 / 1000000000000000\<rparr> =
       example_globals_rejecting\<lparr>rnd_pos := Suc 0\<rparr>"
    by (simp add: example_globals_rejecting_def example_running_globals_def)
  show ?thesis
    unfolding generate_event_05_def get_country_infos_def
    by (simp add: next_uniform_def expovariate_def Let_def u g py_int_def w ci cfg s2 rej
        del: One_nat_def)
qed

end
